theory Spec2Isabelle
  imports Main
begin

section \<open>Strings\<close>

text \<open>
  A Python \<open>str\<close> is modelled as a \<open>string\<close> holding the bytes of its UTF-8 encoding.
  The operations the program applies to strings (equality, concatenation, emptiness,
  splitting at the line feed) give the same result on the encoding as on the code points.
  The non-ASCII characters of the source's literals are spelled out as their bytes.
\<close>

definition em_dash :: string where
  "em_dash = [CHR 0xE2, CHR 0x80, CHR 0x94]"

definition en_dash :: string where
  "en_dash = [CHR 0xE2, CHR 0x80, CHR 0x93]"

definition right_arrow :: string where
  "right_arrow = [CHR 0xE2, CHR 0x86, CHR 0x92]"

definition bullet :: string where
  "bullet = [CHR 0xE2, CHR 0x80, CHR 0xA2]"

definition warning_sign :: string where
  "warning_sign = [CHR 0xE2, CHR 0x9A, CHR 0xA0]"

text \<open>\<open>sep.join(xs)\<close>\<close>

fun join :: "string \<Rightarrow> string list \<Rightarrow> string" where
  "join sep [] = []"
| "join sep [x] = x"
| "join sep (x # y # ys) = x @ sep @ join sep (y # ys)"

text \<open>\<open>str(n)\<close> of a non-negative integer, and the zero-padded fields of \<open>strftime\<close>.\<close>

definition digit_char :: "nat \<Rightarrow> char" where
  "digit_char d = ''0123456789'' ! (d mod 10)"

fun str_nat :: "nat \<Rightarrow> string" where
  "str_nat n = (if n < 10 then [digit_char n] else str_nat (n div 10) @ [digit_char n])"

declare str_nat.simps [simp del]

definition zero_pad :: "nat \<Rightarrow> nat \<Rightarrow> string" where
  "zero_pad w n = replicate (w - length (str_nat n)) CHR ''0'' @ str_nat n"

section \<open>Data model\<close>

text \<open>
  The dictionaries the program builds have fixed keys, so they are records. A refinement
  is the dictionary appended at lines 223-227, an entry the one built at lines 199-209.
\<close>

record refinement =
  ref_timestamp :: string
  ref_mode :: string
  ref_response :: string

record entry =
  timestamp :: string
  topic :: string
  subject :: string
  bloom_level :: string
  style :: string
  question :: string
  response :: string
  refinement_count :: int
  refinements :: "refinement list"

text \<open>\<open>st.session_state\<close>, with the six keys initialised at lines 114-123.\<close>

record session =
  chat_history :: "(string \<times> string) list"
  meta_log :: "entry list"
  confidence_log :: "string list"
  last_answer :: "string option"
  session_topic :: string
  session_active :: bool

definition initial_session :: session where
  "initial_session =
     \<lparr>chat_history = [], meta_log = [], confidence_log = [], last_answer = None,
      session_topic = [], session_active = True\<rparr>"

section \<open>Revision priority\<close>

definition HIGH :: string where
  "HIGH = ''HIGH '' @ warning_sign @ '' '' @ em_dash @ '' Needs revision''"

definition MEDIUM :: string where
  "MEDIUM = ''MEDIUM '' @ em_dash @ '' Review recommended''"

definition LOW :: string where
  "LOW = ''LOW '' @ em_dash @ '' Concept understood''"

definition get_revision_priority :: "int \<Rightarrow> string list \<Rightarrow> string" where
  "get_revision_priority ref_count conf_trend =
     (if ref_count \<ge> 2 \<or> ''Low'' \<in> set conf_trend then HIGH
      else if ref_count = 1 \<or> ''Medium'' \<in> set conf_trend then MEDIUM
      else LOW)"

section \<open>Clock\<close>

text \<open>
  \<open>datetime.datetime.now()\<close> reads the clock; every function that calls it takes the
  reading as an argument. \<open>str(d)\<close> is the ISO form with a space separator, the
  microseconds left out when they are zero; \<open>strftime\<close> is modelled for the two formats
  the program uses, each field zero-padded as the Python documentation gives it.
\<close>

record datetime =
  year :: nat
  month :: nat
  day :: nat
  hour :: nat
  minute :: nat
  second :: nat
  microsecond :: nat

definition str_datetime :: "datetime \<Rightarrow> string" where
  "str_datetime d =
     zero_pad 4 (year d) @ ''-'' @ zero_pad 2 (month d) @ ''-'' @ zero_pad 2 (day d) @ '' '' @
     zero_pad 2 (hour d) @ '':'' @ zero_pad 2 (minute d) @ '':'' @ zero_pad 2 (second d) @
     (if microsecond d = 0 then [] else ''.'' @ zero_pad 6 (microsecond d))"

text \<open>\<open>strftime('%d-%m-%Y %H:%M')\<close>\<close>

definition strftime_summary :: "datetime \<Rightarrow> string" where
  "strftime_summary d =
     zero_pad 2 (day d) @ ''-'' @ zero_pad 2 (month d) @ ''-'' @ zero_pad 4 (year d) @ '' '' @
     zero_pad 2 (hour d) @ '':'' @ zero_pad 2 (minute d)"


section \<open>Local session storage\<close>

text \<open>
  The values \<open>json.load\<close> returns and \<open>json.dump\<close> accepts. The program never stores a
  float, so numbers are integers.
\<close>

datatype json =
  JNull | JBool bool | JInt int | JStr string | JArr "json list" | JObj "(string \<times> json) list"

datatype error = LLMError | JSONDecodeError | AttributeError | ValueError | LayoutError

text \<open>
  Python's \<open>json\<close> module is not part of the program: its serialiser and parser are
  parameters. The file \<open>student_sessions.json\<close> is modelled by its content.
\<close>

record json_lib =
  dump :: "json \<Rightarrow> string"
  load :: "string \<Rightarrow> error + json"

definition refinement_json :: "refinement \<Rightarrow> json" where
  "refinement_json r =
     JObj [(''timestamp'', JStr (ref_timestamp r)), (''mode'', JStr (ref_mode r)),
           (''response'', JStr (ref_response r))]"

definition entry_json :: "entry \<Rightarrow> json" where
  "entry_json e =
     JObj [(''timestamp'', JStr (timestamp e)), (''topic'', JStr (topic e)),
           (''subject'', JStr (subject e)), (''bloom_level'', JStr (bloom_level e)),
           (''style'', JStr (style e)), (''question'', JStr (question e)),
           (''response'', JStr (response e)), (''refinement_count'', JInt (refinement_count e)),
           (''refinements'', JArr (map refinement_json (refinements e)))]"

text \<open>Lines 61-63: the file is created holding the empty array.\<close>

definition initial_file :: "json_lib \<Rightarrow> string" where
  "initial_file lib = dump lib (JArr [])"

definition load_sessions :: "json_lib \<Rightarrow> string \<Rightarrow> error + json" where
  "load_sessions lib f = load lib f"

text \<open>
  \<open>save_session\<close> returns the new content of the file. \<open>data.append\<close> exists only when the
  loaded value is a list; on any other value the attribute lookup raises.
\<close>

definition save_session :: "json_lib \<Rightarrow> entry \<Rightarrow> string \<Rightarrow> error + string" where
  "save_session lib e f =
     (case load_sessions lib f of
        Inl err \<Rightarrow> Inl err
      | Inr (JArr data) \<Rightarrow> Inr (dump lib (JArr (data @ [entry_json e])))
      | Inr _ \<Rightarrow> Inl AttributeError)"

text \<open>Successive calls of \<open>save_session\<close>, one for each entry, stopping at the first error.\<close>

fun save_all :: "json_lib \<Rightarrow> entry list \<Rightarrow> string \<Rightarrow> error + string" where
  "save_all lib [] f = Inr f"
| "save_all lib (e # es) f =
     (case save_session lib e f of Inl err \<Rightarrow> Inl err | Inr f' \<Rightarrow> save_all lib es f')"

section \<open>Subject and Bloom presets\<close>

definition SUBJECT_PRESETS :: "(string \<times> string) list" where
  "SUBJECT_PRESETS =
     [(''General'', ''Explain simply using relatable daily-life examples.''),
      (''Math'', ''Explain step-by-step with conceptual breakdown.''),
      (''Science'', ''Explain like a real-world process with analogies.''),
      (''Computer Science'', ''Explain concept first, then small example.''),
      (''Economics'', ''Explain with real-life decision-making scenarios.'')]"

definition BLOOM_GUIDE :: "(string \<times> string) list" where
  "BLOOM_GUIDE =
     [(''Remember'', ''Recall, define, identify basic concepts.''),
      (''Understand'', ''Explain meaning, interpret ideas clearly.''),
      (''Apply'', ''Use concepts in real-world or practical examples.''),
      (''Analyze'', ''Compare, reason, break down relationships.'')]"

definition SYSTEM_PROMPT :: string where
  "SYSTEM_PROMPT =
     ''\<newline>You are an AI-Powered Learning Gap Assistant.\<newline>'' @
     ''\<newline>Focus on conceptual clarity and understanding.\<newline>'' @
     ''Avoid cheating or direct exam-type solutions.\<newline>'' @
     ''\<newline>Always respond in this structure:\<newline>'' @
     ''\<newline>1) Concept Explanation\<newline>'' @
     ''2) Real-World Example\<newline>'' @
     ''3) Key Points Summary (3'' @ en_dash @ ''5 bullets)\<newline>'' @
     ''4) Common Misconceptions\<newline>'' @
     ''5) Quick Practice Questions (no answers)\<newline>'' @
     ''6) Ask if student wants simpler explanation or more examples\<newline>''"

text \<open>\<open>d.get(k, "")\<close> on a dictionary of strings.\<close>

definition get_or_empty :: "(string \<times> string) list \<Rightarrow> string \<Rightarrow> string" where
  "get_or_empty d k = (case map_of d k of None \<Rightarrow> [] | Some v \<Rightarrow> v)"

section \<open>Response engine\<close>

definition refinement_map :: "(string \<times> string) list" where
  "refinement_map =
     [(''simpler'', ''Explain this again in simpler scaffolded form.''),
      (''more_examples'', ''Provide more real-world examples and analogies.'')]"

definition user_prompt :: "session \<Rightarrow> string \<Rightarrow> string \<Rightarrow> string \<Rightarrow> string \<Rightarrow> string \<Rightarrow> string" where
  "user_prompt s qn subj bloom sty mode =
     ''\<newline>Session Topic: '' @ session_topic s @ ''\<newline>'' @
     ''\<newline>Subject: '' @ subj @ ''\<newline>'' @
     ''Bloom Learning Level: '' @ bloom @ ''\<newline>'' @
     ''Explanation Style: '' @ sty @ ''\<newline>'' @
     ''\<newline>Subject Guidance:\<newline>'' @ get_or_empty SUBJECT_PRESETS subj @ ''\<newline>'' @
     ''\<newline>Bloom Style:\<newline>'' @ get_or_empty BLOOM_GUIDE bloom @ ''\<newline>'' @
     ''\<newline>Refinement Mode:\<newline>'' @ get_or_empty refinement_map mode @ ''\<newline>'' @
     ''\<newline>Student Question:\<newline>'' @ qn @ ''\<newline>''"

text \<open>The message list sent to the model: pairs of role and content.\<close>

definition build_messages ::
  "session \<Rightarrow> string \<Rightarrow> string \<Rightarrow> string \<Rightarrow> string \<Rightarrow> string \<Rightarrow> (string \<times> string) list" where
  "build_messages s qn subj bloom sty mode =
     [(''system'', SYSTEM_PROMPT)] @
     map (\<lambda>(speaker, msg). (if speaker = ''Student'' then ''user'' else ''assistant'', msg))
       (chat_history s) @
     [(''user'', user_prompt s qn subj bloom sty mode)]"

definition response_tag :: "string \<Rightarrow> string" where
  "response_tag mode =
     (if mode = ''primary'' then ''(v1 '' @ em_dash @ '' Main Explanation)''
      else if mode = ''simpler'' then ''(v2 '' @ em_dash @ '' Simpler Explanation)''
      else ''(v2 '' @ em_dash @ '' More Real-World Examples)'')"

text \<open>
  Lines 221-227: the last entry of the log gets one more refinement. The caller checks
  that the log is not empty.
\<close>

definition add_refinement :: "refinement \<Rightarrow> entry list \<Rightarrow> entry list" where
  "add_refinement r ml =
     butlast ml @
     [(last ml)\<lparr>refinement_count := refinement_count (last ml) + 1,
                refinements := refinements (last ml) @ [r]\<rparr>]"

text \<open>
  \<open>generate_response\<close>. The argument \<open>llm\<close> stands for lines 168-173, the request to the
  model and the extraction of its reply: it returns the answer or the error raised. The
  state is the session together with the content of the log file; the result is the state
  the call leaves behind and the returned answer or the error that propagates. A failing
  \<open>save_session\<close> leaves the session as mutated up to line 211.
\<close>

definition generate_response ::
  "json_lib \<Rightarrow> ((string \<times> string) list \<Rightarrow> error + string) \<Rightarrow> datetime \<Rightarrow>
   string \<Rightarrow> string \<Rightarrow> string \<Rightarrow> string \<Rightarrow> string \<Rightarrow> session \<times> string \<Rightarrow>
   (session \<times> string) \<times> (error + string)" where
  "generate_response lib llm now qn subj bloom sty mode st =
     (case st of (s, f) \<Rightarrow>
      (case llm (build_messages s qn subj bloom sty mode) of
         Inl err \<Rightarrow> ((s, f), Inl err)
       | Inr answer \<Rightarrow>
           let tag = response_tag mode;
               s1 = (if mode = ''primary''
                     then s\<lparr>chat_history := chat_history s @ [(''Student'', qn)]\<rparr> else s);
               s2 = s1\<lparr>chat_history :=
                         chat_history s1 @ [(''AI Assistant'', tag @ ''\<newline>\<newline>'' @ answer)]\<rparr>;
               s3 = s2\<lparr>last_answer := Some answer\<rparr>
           in if mode = ''primary'' then
                let e = \<lparr>timestamp = str_datetime now, topic = session_topic s3,
                         subject = subj, bloom_level = bloom, style = sty, question = qn,
                         response = answer, refinement_count = 0, refinements = []\<rparr>;
                    s4 = s3\<lparr>meta_log := meta_log s3 @ [e]\<rparr>
                in (case save_session lib e f of
                      Inl err \<Rightarrow> ((s4, f), Inl err)
                    | Inr f' \<Rightarrow> ((s4, f'), Inr answer))
              else if meta_log s3 \<noteq> [] then
                let r = \<lparr>ref_timestamp = str_datetime now, ref_mode = mode,
                         ref_response = answer\<rparr>
                in ((s3\<lparr>meta_log := add_refinement r (meta_log s3)\<rparr>, f), Inr answer)
              else ((s3, f), Inr answer)))"

section \<open>Summary generator\<close>

definition summary_header :: "session \<Rightarrow> datetime \<Rightarrow> string" where
  "summary_header s now =
     (let joined = join ('' '' @ right_arrow @ '' '') (confidence_log s);
          conf_trend = (if joined = [] then ''No feedback submitted'' else joined)
      in ''\<newline>AI Learning Session Summary\<newline>'' @
         ''\<newline>Session Topic: '' @ session_topic s @ ''\<newline>'' @
         ''Date: '' @ strftime_summary now @ ''\<newline>'' @
         ''\<newline>Total Questions: '' @ str_nat (length (meta_log s)) @ ''\<newline>'' @
         ''Confidence Trend: '' @ conf_trend @ ''\<newline>'')"

text \<open>Lines 275-284: the block that opens an entry, up to its first answer.\<close>

definition entry_head :: "string list \<Rightarrow> entry \<Rightarrow> string" where
  "entry_head conf e =
     (let priority = get_revision_priority (refinement_count e) conf
      in ''\<newline>'' @ bullet @ '' Question: '' @ question e @ ''\<newline>'' @
         ''  Subject: '' @ subject e @ ''\<newline>'' @
         ''  Bloom Level: '' @ bloom_level e @ ''\<newline>'' @
         ''\<newline>  Revision Priority: '' @ priority @ ''\<newline>'' @
         ''\<newline>  Answer Version 1 (Main Explanation):\<newline>'' @
         ''  '' @ response e @ ''\<newline>'')"

text \<open>Lines 287-292: the block of one refinement, \<open>i\<close> its ordinal.\<close>

definition refinement_block :: "nat \<Rightarrow> refinement \<Rightarrow> string" where
  "refinement_block i r =
     (let label = (if ref_mode r = ''simpler'' then ''Simpler Explanation'' else ''More Examples'')
      in ''\<newline>  Answer Version '' @ str_nat i @ '' '' @ em_dash @ '' '' @ label @ '':\<newline>'' @
         ''  '' @ ref_response r @ ''\<newline>'')"

definition entry_text :: "string list \<Rightarrow> entry \<Rightarrow> string" where
  "entry_text conf e =
     entry_head conf e @
     concat (map (\<lambda>(i, r). refinement_block i r) (List.enumerate 2 (refinements e)))"

definition reflection_notes :: string where
  "reflection_notes =
     ''\<newline>Reflection Notes:\<newline>'' @
     bullet @ '' Revise HIGH-priority topics first\<newline>'' @
     bullet @ '' Use simpler mode when confidence is low\<newline>'' @
     bullet @ '' Use examples mode when concepts feel abstract\<newline>'' @
     bullet @ '' Attempt practice questions after revision\<newline>''"

definition generate_summary :: "session \<Rightarrow> datetime \<Rightarrow> string" where
  "generate_summary s now =
     (if meta_log s = [] then ''No questions asked yet.''
      else summary_header s now @
           ''\<newline>\<newline>Questions & Learning Attempts:\<newline>'' @
           concat (map (entry_text (confidence_log s)) (meta_log s)) @
           reflection_notes)"

section \<open>PDF export\<close>










section \<open>Summary and downloads\<close>

datatype 'd payload = TextData string | PdfData 'd

record 'd download =
  label :: string
  data :: "'d payload"
  file_name :: string



section \<open>Session controls\<close>

text \<open>Lines 374-384: the handlers of the two session buttons.\<close>

definition reset_session :: "session \<Rightarrow> session" where
  "reset_session s =
     s\<lparr>chat_history := [], meta_log := [], confidence_log := [], last_answer := None,
       session_active := True\<rparr>"

definition exit_session :: "session \<Rightarrow> session" where
  "exit_session s = s\<lparr>session_active := False\<rparr>"

text \<open>
  The interactions of the page. A truthy \<open>last_answer\<close> is a non-empty string; the
  three selections (subject, Bloom level, style) come with the interaction.
\<close>

datatype event =
  TopicInput string | StartNewSession | ExitSession | ChatInput string |
  ConfHigh | ConfMid | ConfLow | SimplerExplain | MoreExamples

definition truthy :: "string option \<Rightarrow> bool" where
  "truthy a = (case a of None \<Rightarrow> False | Some x \<Rightarrow> x \<noteq> [])"

definition log_confidence :: "string \<Rightarrow> session \<Rightarrow> session" where
  "log_confidence c s =
     (if truthy (last_answer s) \<and> session_active s
      then s\<lparr>confidence_log := confidence_log s @ [c]\<rparr> else s)"

definition follow_up ::
  "json_lib \<Rightarrow> ((string \<times> string) list \<Rightarrow> error + string) \<Rightarrow> datetime \<Rightarrow>
   string \<Rightarrow> string \<Rightarrow> string \<Rightarrow> string \<Rightarrow> session \<times> string \<Rightarrow> session \<times> string" where
  "follow_up lib llm now subj bloom sty mode st =
     (case last_answer (fst st) of
        None \<Rightarrow> st
      | Some a \<Rightarrow>
          if session_active (fst st) \<and> a \<noteq> []
          then fst (generate_response lib llm now a subj bloom sty mode st) else st)"

definition run_event ::
  "json_lib \<Rightarrow> ((string \<times> string) list \<Rightarrow> error + string) \<Rightarrow> datetime \<Rightarrow>
   string \<Rightarrow> string \<Rightarrow> string \<Rightarrow> event \<Rightarrow> session \<times> string \<Rightarrow> session \<times> string" where
  "run_event lib llm now subj bloom sty ev st =
     (case ev of
        TopicInput t \<Rightarrow> ((fst st)\<lparr>session_topic := t\<rparr>, snd st)
      | StartNewSession \<Rightarrow> (reset_session (fst st), snd st)
      | ExitSession \<Rightarrow> (exit_session (fst st), snd st)
      | ChatInput q \<Rightarrow>
          if session_active (fst st) \<and> q \<noteq> []
          then fst (generate_response lib llm now q subj bloom sty ''primary'' st) else st
      | ConfHigh \<Rightarrow> (log_confidence ''High'' (fst st), snd st)
      | ConfMid \<Rightarrow> (log_confidence ''Medium'' (fst st), snd st)
      | ConfLow \<Rightarrow> (log_confidence ''Low'' (fst st), snd st)
      | SimplerExplain \<Rightarrow> follow_up lib llm now subj bloom sty ''simpler'' st
      | MoreExamples \<Rightarrow> follow_up lib llm now subj bloom sty ''more_examples'' st)"

section \<open>The file-name pattern of the specification\<close>


section \<open>The counting invariant\<close>

text \<open>An entry is consistent when its counter is the number of its refinements.\<close>

definition count_matches :: "entry \<Rightarrow> bool" where
  "count_matches e = (refinement_count e = int (length (refinements e)))"

definition log_consistent :: "session \<Rightarrow> bool" where
  "log_consistent s = list_all count_matches (meta_log s)"

section \<open>An example JSON library\<close>

text \<open>
  A concrete library for the examples: a serialiser in the layout of
  \<open>json.dump(data, f, indent=4)\<close> and a recursive-descent parser for that layout. In a
  string the quote, the backslash and the line feed are escaped and every other byte is
  written as it is. The parser takes fuel, one unit for each nested call; the length of
  the input is enough.
\<close>

definition dquote :: char where "dquote = CHR 0x22"
definition backslash :: char where "backslash = CHR 0x5C"

definition json_quote :: "string \<Rightarrow> string" where
  "json_quote s =
     [dquote] @
     concat (map (\<lambda>c. if c = dquote \<or> c = backslash then [backslash, c]
                        else if c = CHR 0x0A then [backslash, CHR ''n''] else [c]) s) @
     [dquote]"

definition str_int :: "int \<Rightarrow> string" where
  "str_int i = (if i < 0 then ''-'' @ str_nat (nat (- i)) else str_nat (nat i))"

definition indent :: "nat \<Rightarrow> string" where
  "indent lvl = replicate (4 * lvl) CHR '' ''"

fun render :: "nat \<Rightarrow> json \<Rightarrow> string" where
  "render lvl JNull = ''null''"
| "render lvl (JBool b) = (if b then ''true'' else ''false'')"
| "render lvl (JInt i) = str_int i"
| "render lvl (JStr s) = json_quote s"
| "render lvl (JArr xs) =
     (if xs = [] then ''[]''
      else ''[\<newline>'' @
           join '',\<newline>'' (map (\<lambda>x. indent (Suc lvl) @ render (Suc lvl) x) xs) @
           ''\<newline>'' @ indent lvl @ '']'')"
| "render lvl (JObj kvs) =
     (if kvs = [] then ''{}''
      else ''{\<newline>'' @
           join '',\<newline>''
             (map (\<lambda>kv. indent (Suc lvl) @ json_quote (fst kv) @ '': '' @ render (Suc lvl) (snd kv))
                kvs) @
           ''\<newline>'' @ indent lvl @ ''}'')"

definition is_ws :: "char \<Rightarrow> bool" where
  "is_ws c = (c = CHR '' '' \<or> c = CHR 0x0A \<or> c = CHR 0x0D \<or> c = CHR 0x09)"

definition skip_ws :: "string \<Rightarrow> string" where
  "skip_ws cs = dropWhile is_ws cs"

fun unquote :: "string \<Rightarrow> (string \<times> string) option" where
  "unquote [] = None"
| "unquote [c] = (if c = dquote then Some ([], []) else None)"
| "unquote (c # e # cs) =
     (if c = dquote then Some ([], e # cs)
      else if c = backslash then
        (case unquote cs of
           None \<Rightarrow> None
         | Some (s, rest) \<Rightarrow>
             if e = CHR ''n'' then Some (CHR 0x0A # s, rest)
             else if e = dquote \<or> e = backslash then Some (e # s, rest)
             else None)
      else (case unquote (e # cs) of None \<Rightarrow> None | Some (s, rest) \<Rightarrow> Some (c # s, rest)))"

definition is_digit :: "char \<Rightarrow> bool" where
  "is_digit c = (48 \<le> (of_char c :: nat) \<and> (of_char c :: nat) \<le> 57)"

definition digits_nat :: "string \<Rightarrow> nat" where
  "digits_nat ds = foldl (\<lambda>n c. 10 * n + (of_char c - 48)) 0 ds"

definition parse_int :: "string \<Rightarrow> (json \<times> string) option" where
  "parse_int cs =
     (let neg = (take 1 cs = ''-'');
          body = (if neg then drop 1 cs else cs);
          ds = takeWhile is_digit body
      in if ds = [] then None
         else Some (JInt (if neg then - int (digits_nat ds) else int (digits_nat ds)),
                    dropWhile is_digit body))"

fun parse_value :: "nat \<Rightarrow> string \<Rightarrow> (json \<times> string) option"
  and parse_elems :: "nat \<Rightarrow> string \<Rightarrow> (json list \<times> string) option"
  and parse_members :: "nat \<Rightarrow> string \<Rightarrow> ((string \<times> json) list \<times> string) option" where
  "parse_value 0 cs = None"
| "parse_value (Suc n) cs =
     (case skip_ws cs of
        [] \<Rightarrow> None
      | c # r \<Rightarrow>
          if c = CHR ''['' then
            (if take 1 (skip_ws r) = '']'' then Some (JArr [], drop 1 (skip_ws r))
             else (case parse_elems n r of None \<Rightarrow> None | Some (vs, rest) \<Rightarrow> Some (JArr vs, rest)))
          else if c = CHR ''{'' then
            (if take 1 (skip_ws r) = ''}'' then Some (JObj [], drop 1 (skip_ws r))
             else (case parse_members n r of None \<Rightarrow> None | Some (kvs, rest) \<Rightarrow> Some (JObj kvs, rest)))
          else if c = dquote then
            (case unquote r of None \<Rightarrow> None | Some (s, rest) \<Rightarrow> Some (JStr s, rest))
          else if take 4 (c # r) = ''null'' then Some (JNull, drop 3 r)
          else if take 4 (c # r) = ''true'' then Some (JBool True, drop 3 r)
          else if take 5 (c # r) = ''false'' then Some (JBool False, drop 4 r)
          else parse_int (c # r))"
| "parse_elems 0 cs = None"
| "parse_elems (Suc n) cs =
     (case parse_value n cs of
        None \<Rightarrow> None
      | Some (v, rest) \<Rightarrow>
          (case skip_ws rest of
             [] \<Rightarrow> None
           | c # r \<Rightarrow>
               if c = CHR '','' then
                 (case parse_elems n r of None \<Rightarrow> None | Some (vs, rest') \<Rightarrow> Some (v # vs, rest'))
               else if c = CHR '']'' then Some ([v], r)
               else None))"
| "parse_members 0 cs = None"
| "parse_members (Suc n) cs =
     (case skip_ws cs of
        [] \<Rightarrow> None
      | q # r \<Rightarrow>
          if q \<noteq> dquote then None
          else (case unquote r of
                  None \<Rightarrow> None
                | Some (k, rest) \<Rightarrow>
                    (case skip_ws rest of
                       [] \<Rightarrow> None
                     | colon # r' \<Rightarrow>
                         if colon \<noteq> CHR '':'' then None
                         else (case parse_value n r' of
                                 None \<Rightarrow> None
                               | Some (v, rest') \<Rightarrow>
                                   (case skip_ws rest' of
                                      [] \<Rightarrow> None
                                    | c # r'' \<Rightarrow>
                                        if c = CHR '','' then
                                          (case parse_members n r'' of
                                             None \<Rightarrow> None
                                           | Some (kvs, rest'') \<Rightarrow> Some ((k, v) # kvs, rest''))
                                        else if c = CHR ''}'' then Some ([(k, v)], r'')
                                        else None)))))"

definition parse_json :: "string \<Rightarrow> error + json" where
  "parse_json cs =
     (case parse_value (Suc (length cs)) cs of
        None \<Rightarrow> Inl JSONDecodeError
      | Some (v, rest) \<Rightarrow> if skip_ws rest = [] then Inr v else Inl JSONDecodeError)"

definition example_lib :: json_lib where
  "example_lib = \<lparr>dump = render 0, load = parse_json\<rparr>"

section \<open>Sample values\<close>

text \<open>
  Concrete inputs for the examples below: a library that stores nothing, a model that
  always replies, a model that always fails, a clock reading, and the session of the
  "Fractions" example.
\<close>

definition null_lib :: json_lib where
  "null_lib = \<lparr>dump = (\<lambda>_. []), load = (\<lambda>_. Inr (JArr []))\<rparr>"

definition reply :: "string \<Rightarrow> (string \<times> string) list \<Rightarrow> error + string" where
  "reply a msgs = Inr a"

definition failing_llm :: "(string \<times> string) list \<Rightarrow> error + string" where
  "failing_llm msgs = Inl LLMError"

definition noon :: datetime where
  "noon = \<lparr>year = 2025, month = 3, day = 7, hour = 12, minute = 5, second = 9, microsecond = 0\<rparr>"

definition fractions_entry :: entry where
  "fractions_entry =
     \<lparr>timestamp = ''2025-03-07 12:01:30.250000'', topic = ''Fractions'', subject = ''Math'',
      bloom_level = ''Understand'', style = ''Simple'', question = ''What is 1/2?'',
      response = ''One of two equal parts.'', refinement_count = 1,
      refinements = [\<lparr>ref_timestamp = ''2025-03-07 12:03:10.500000'', ref_mode = ''simpler'',
                      ref_response = ''Half of a whole.''\<rparr>]\<rparr>"

definition fractions_session :: session where
  "fractions_session =
     \<lparr>chat_history =
        [(''Student'', ''What is 1/2?''),
         (''AI Assistant'', ''(v1 '' @ em_dash @ '' Main Explanation)\<newline>\<newline>One of two equal parts.''),
         (''AI Assistant'', ''(v2 '' @ em_dash @ '' Simpler Explanation)\<newline>\<newline>Half of a whole.'')],
      meta_log = [fractions_entry], confidence_log = [''Medium''],
      last_answer = Some ''Half of a whole.'', session_topic = ''Fractions'',
      session_active = True\<rparr>"

definition decimals_entry :: entry where
  "decimals_entry =
     \<lparr>timestamp = ''2025-03-07 12:04:00'', topic = ''Fractions'', subject = ''Math'',
      bloom_level = ''Apply'', style = ''Step-by-Step'', question = ''Write 1/2 as a \"decimal\".'',
      response = ''Divide 1 by 2:\<newline>0.5'', refinement_count = 0, refinements = []\<rparr>"


definition two_question_session :: session where
  "two_question_session = fractions_session\<lparr>meta_log := [fractions_entry, decimals_entry]\<rparr>"




section \<open>Properties of the priority classifier\<close>

lemma priority_labels_distinct: "HIGH \<noteq> MEDIUM" "HIGH \<noteq> LOW" "MEDIUM \<noteq> LOW"
  by (simp_all add: HIGH_def MEDIUM_def LOW_def)

text \<open>
  C1. For every refinement count and every confidence history, the classifier returns the
  HIGH label exactly when the count is at least 2 or "Low" occurs in the history; the
  MEDIUM label exactly when that is not so and the count is 1 or "Medium" occurs in the
  history; and the LOW label exactly when neither holds.
\<close>

theorem get_revision_priority_cases:
  "(get_revision_priority rc ct = HIGH \<longleftrightarrow> (rc \<ge> 2 \<or> ''Low'' \<in> set ct)) \<and>
   (get_revision_priority rc ct = MEDIUM \<longleftrightarrow>
      (rc < 2 \<and> ''Low'' \<notin> set ct \<and> (rc = 1 \<or> ''Medium'' \<in> set ct))) \<and>
   (get_revision_priority rc ct = LOW \<longleftrightarrow>
      (rc < 2 \<and> ''Low'' \<notin> set ct \<and> rc \<noteq> 1 \<and> ''Medium'' \<notin> set ct))"
  using priority_labels_distinct
  by (auto simp add: get_revision_priority_def)

theorem get_revision_priority_cases_witness:
  "get_revision_priority 2 [''High''] = HIGH \<and>
   get_revision_priority 0 [''High'', ''Low''] = HIGH \<and>
   get_revision_priority 1 [] = MEDIUM \<and>
   get_revision_priority 0 [''Medium'', ''High''] = MEDIUM \<and>
   get_revision_priority 0 [] = LOW \<and>
   get_revision_priority 0 [''High'', ''High''] = LOW"
  using get_revision_priority_cases [of 2 "[''High'']"]
    get_revision_priority_cases [of 0 "[''High'', ''Low'']"]
    get_revision_priority_cases [of 1 "[]"]
    get_revision_priority_cases [of 0 "[''Medium'', ''High'']"]
    get_revision_priority_cases [of 0 "[]"]
    get_revision_priority_cases [of 0 "[''High'', ''High'']"]
  by simp

section \<open>Properties of the response engine\<close>

text \<open>
  C2. When the model replies, a primary call appends to the transcript the Student
  message holding the question and then one assistant message holding the tagged reply;
  a call in mode "simpler" or "more_examples" appends the one assistant message only.
\<close>

theorem generate_response_transcript:
  assumes "llm (build_messages s qn subj bloom sty mode) = Inr answer"
  shows "(mode = ''primary'' \<longrightarrow>
            chat_history (fst (fst (generate_response lib llm now qn subj bloom sty mode (s, f)))) =
              chat_history s @
              [(''Student'', qn),
               (''AI Assistant'', ''(v1 '' @ em_dash @ '' Main Explanation)'' @ ''\<newline>\<newline>'' @ answer)]) \<and>
         (mode = ''simpler'' \<longrightarrow>
            chat_history (fst (fst (generate_response lib llm now qn subj bloom sty mode (s, f)))) =
              chat_history s @
              [(''AI Assistant'', ''(v2 '' @ em_dash @ '' Simpler Explanation)'' @ ''\<newline>\<newline>'' @ answer)]) \<and>
         (mode = ''more_examples'' \<longrightarrow>
            chat_history (fst (fst (generate_response lib llm now qn subj bloom sty mode (s, f)))) =
              chat_history s @
              [(''AI Assistant'', ''(v2 '' @ em_dash @ '' More Real-World Examples)'' @ ''\<newline>\<newline>'' @ answer)])"
  using assms
  by (auto simp add: generate_response_def response_tag_def Let_def split: sum.splits)

theorem generate_response_transcript_witness:
  "chat_history (fst (fst (generate_response null_lib (reply ''A half.'') noon ''What is 1/2?''
      ''Math'' ''Apply'' ''Simple'' ''primary'' (initial_session, [])))) =
     [(''Student'', ''What is 1/2?''),
      (''AI Assistant'', ''(v1 '' @ em_dash @ '' Main Explanation)'' @ ''\<newline>\<newline>'' @ ''A half.'')] \<and>
   chat_history (fst (fst (generate_response null_lib (reply ''One of two.'') noon ''A half.''
      ''Math'' ''Apply'' ''Simple'' ''simpler'' (initial_session, [])))) =
     [(''AI Assistant'', ''(v2 '' @ em_dash @ '' Simpler Explanation)'' @ ''\<newline>\<newline>'' @ ''One of two.'')] \<and>
   chat_history (fst (fst (generate_response null_lib (reply ''Half a pizza.'') noon ''A half.''
      ''Math'' ''Apply'' ''Simple'' ''more_examples'' (initial_session, [])))) =
     [(''AI Assistant'', ''(v2 '' @ em_dash @ '' More Real-World Examples)'' @ ''\<newline>\<newline>'' @ ''Half a pizza.'')]"
  using generate_response_transcript [of "reply ''A half.''" initial_session "''What is 1/2?''"
      "''Math''" "''Apply''" "''Simple''" "''primary''" "''A half.''" null_lib noon "[]"]
    generate_response_transcript [of "reply ''One of two.''" initial_session "''A half.''"
      "''Math''" "''Apply''" "''Simple''" "''simpler''" "''One of two.''" null_lib noon "[]"]
    generate_response_transcript [of "reply ''Half a pizza.''" initial_session "''A half.''"
      "''Math''" "''Apply''" "''Simple''" "''more_examples''" "''Half a pizza.''" null_lib noon "[]"]
  by (simp add: reply_def initial_session_def)

text \<open>
  C3. When the call to the model raises, \<open>generate_response\<close> leaves the session and the
  log file as they were, and the error propagates.
\<close>

theorem generate_response_llm_error:
  assumes "llm (build_messages s qn subj bloom sty mode) = Inl err"
  shows "generate_response lib llm now qn subj bloom sty mode (s, f) = ((s, f), Inl err)"
  using assms by (simp add: generate_response_def)

theorem generate_response_llm_error_witness:
  "generate_response null_lib failing_llm noon ''What is 1/2?'' ''Math'' ''Apply'' ''Simple''
     ''primary'' (initial_session, initial_file null_lib) =
   ((initial_session, initial_file null_lib), Inl LLMError)"
  using generate_response_llm_error [of failing_llm initial_session "''What is 1/2?''" "''Math''"
      "''Apply''" "''Simple''" "''primary''" LLMError null_lib noon "initial_file null_lib"]
  by (simp add: failing_llm_def)

text \<open>
  C6. When the model replies to a refinement call and the log is not empty, the new log is
  the old one with its last entry replaced: all entries before the last are unchanged, and
  the last has its counter incremented and the new refinement appended.
\<close>

theorem refinement_targets_last_entry:
  assumes "llm (build_messages s qn subj bloom sty mode) = Inr answer"
    and "meta_log s \<noteq> []"
    and "mode = ''simpler'' \<or> mode = ''more_examples''"
  shows "meta_log (fst (fst (generate_response lib llm now qn subj bloom sty mode (s, f)))) =
           butlast (meta_log s) @
           [(last (meta_log s))
              \<lparr>refinement_count := refinement_count (last (meta_log s)) + 1,
               refinements := refinements (last (meta_log s)) @
                 [\<lparr>ref_timestamp = str_datetime now, ref_mode = mode, ref_response = answer\<rparr>]\<rparr>]"
  using assms
  by (auto simp add: generate_response_def add_refinement_def Let_def)

theorem refinement_targets_last_entry_witness:
  "meta_log (fst (fst (generate_response null_lib (reply ''Move the point.'') noon
      ''Divide 1 by 2'' ''Math'' ''Apply'' ''Simple'' ''more_examples''
      (two_question_session, [])))) =
   [fractions_entry,
    decimals_entry
      \<lparr>refinement_count := 1,
       refinements :=
         [\<lparr>ref_timestamp = str_datetime noon, ref_mode = ''more_examples'',
           ref_response = ''Move the point.''\<rparr>]\<rparr>]"
  using refinement_targets_last_entry [of "reply ''Move the point.''" two_question_session
      "''Divide 1 by 2''" "''Math''" "''Apply''" "''Simple''" "''more_examples''"
      "''Move the point.''" null_lib noon "[]"]
  by (simp add: reply_def two_question_session_def fractions_session_def decimals_entry_def)

section \<open>Properties of the session controls\<close>

text \<open>
  C4. The reset handler empties the transcript, the log and the confidence log and sets
  the active flag; the exit handler clears the active flag and leaves the three lists
  unchanged.
\<close>

theorem session_buttons:
  "chat_history (reset_session s) = [] \<and> meta_log (reset_session s) = [] \<and>
   confidence_log (reset_session s) = [] \<and> session_active (reset_session s) = True \<and>
   session_active (exit_session s) = False \<and>
   chat_history (exit_session s) = chat_history s \<and>
   meta_log (exit_session s) = meta_log s \<and>
   confidence_log (exit_session s) = confidence_log s"
  by (simp add: reset_session_def exit_session_def)

section \<open>Preservation of the counting invariant\<close>

lemma add_refinement_consistent:
  assumes "list_all count_matches ml" and "ml \<noteq> []"
  shows "list_all count_matches (add_refinement r ml)"
proof -
  have "count_matches (last ml)"
    using assms by (simp add: list_all_iff)
  moreover have "list_all count_matches (butlast ml)"
    using assms(1) by (auto simp add: list_all_iff dest: in_set_butlastD)
  ultimately show ?thesis
    by (simp add: add_refinement_def count_matches_def)
qed

lemma generate_response_consistent:
  assumes "log_consistent s"
  shows "log_consistent (fst (fst (generate_response lib llm now qn subj bloom sty mode (s, f))))"
proof (cases "llm (build_messages s qn subj bloom sty mode)")
  case (Inl err)
  then show ?thesis using assms by (simp add: generate_response_def)
next
  case (Inr answer)
  show ?thesis
  proof (cases "mode = ''primary''")
    case True
    then show ?thesis
      using Inr assms
      by (simp add: generate_response_def log_consistent_def count_matches_def Let_def
          split: sum.splits)
  next
    case False
    then show ?thesis
      using Inr assms add_refinement_consistent [of "meta_log s"]
      by (simp add: generate_response_def log_consistent_def Let_def)
  qed
qed

lemma follow_up_consistent:
  assumes "log_consistent (fst st)"
  shows "log_consistent (fst (follow_up lib llm now subj bloom sty mode st))"
  using assms generate_response_consistent [of "fst st" lib llm now _ subj bloom sty mode "snd st"]
  by (simp add: follow_up_def split: option.splits)

lemma run_event_consistent:
  assumes "log_consistent (fst st)"
  shows "log_consistent (fst (run_event lib llm now subj bloom sty ev st))"
proof (cases ev)
  case (ChatInput q)
  then show ?thesis
    using assms generate_response_consistent [of "fst st" lib llm now q subj bloom sty "''primary''" "snd st"]
    by (simp add: run_event_def)
next
  case SimplerExplain
  then show ?thesis using assms by (simp add: run_event_def follow_up_consistent)
next
  case MoreExamples
  then show ?thesis using assms by (simp add: run_event_def follow_up_consistent)
qed (use assms in \<open>simp_all add: run_event_def log_consistent_def reset_session_def
      exit_session_def log_confidence_def\<close>)

text \<open>
  C10. Every entry's counter equals the number of its refinements: this holds initially
  and is preserved by every interaction of the page and by every call of
  \<open>generate_response\<close>, whatever the model and the log file do. A primary call that gets a
  reply appends an entry with counter 0 and no refinement; a refinement call that gets a
  reply adds exactly 1 to the last entry's counter and exactly one refinement to its list.
\<close>

theorem refinement_count_invariant:
  "log_consistent initial_session \<and>
   (log_consistent (fst st) \<longrightarrow>
      log_consistent (fst (run_event lib llm now subj bloom sty ev st))) \<and>
   (log_consistent s \<longrightarrow>
      log_consistent (fst (fst (generate_response lib llm now qn subj bloom sty mode (s, f))))) \<and>
   (llm (build_messages s qn subj bloom sty ''primary'') = Inr answer \<longrightarrow>
      meta_log (fst (fst (generate_response lib llm now qn subj bloom sty ''primary'' (s, f)))) =
        meta_log s @
        [\<lparr>timestamp = str_datetime now, topic = session_topic s, subject = subj,
          bloom_level = bloom, style = sty, question = qn, response = answer,
          refinement_count = 0, refinements = []\<rparr>]) \<and>
   (llm (build_messages s qn subj bloom sty mode) = Inr answer \<and> mode \<noteq> ''primary'' \<and>
    meta_log s \<noteq> [] \<longrightarrow>
      refinement_count (last (meta_log
          (fst (fst (generate_response lib llm now qn subj bloom sty mode (s, f)))))) =
        refinement_count (last (meta_log s)) + 1 \<and>
      length (refinements (last (meta_log
          (fst (fst (generate_response lib llm now qn subj bloom sty mode (s, f))))))) =
        length (refinements (last (meta_log s))) + 1)"
proof (intro conjI impI)
  show "log_consistent initial_session"
    by (simp add: log_consistent_def initial_session_def)
next
  assume "log_consistent (fst st)"
  then show "log_consistent (fst (run_event lib llm now subj bloom sty ev st))"
    by (rule run_event_consistent)
next
  assume "log_consistent s"
  then show "log_consistent (fst (fst (generate_response lib llm now qn subj bloom sty mode (s, f))))"
    by (rule generate_response_consistent)
next
  assume "llm (build_messages s qn subj bloom sty ''primary'') = Inr answer"
  then show "meta_log (fst (fst (generate_response lib llm now qn subj bloom sty ''primary'' (s, f)))) =
        meta_log s @
        [\<lparr>timestamp = str_datetime now, topic = session_topic s, subject = subj,
          bloom_level = bloom, style = sty, question = qn, response = answer,
          refinement_count = 0, refinements = []\<rparr>]"
    by (simp add: generate_response_def Let_def split: sum.splits)
next
  assume a: "llm (build_messages s qn subj bloom sty mode) = Inr answer \<and> mode \<noteq> ''primary'' \<and>
    meta_log s \<noteq> []"
  then show "refinement_count (last (meta_log
          (fst (fst (generate_response lib llm now qn subj bloom sty mode (s, f)))))) =
        refinement_count (last (meta_log s)) + 1"
    by (simp add: generate_response_def add_refinement_def Let_def)
  from a show "length (refinements (last (meta_log
          (fst (fst (generate_response lib llm now qn subj bloom sty mode (s, f))))))) =
        length (refinements (last (meta_log s))) + 1"
    by (simp add: generate_response_def add_refinement_def Let_def)
qed

theorem refinement_count_invariant_witness:
  "log_consistent fractions_session \<and>
   log_consistent (fst (run_event null_lib (reply ''Half a pizza.'') noon ''Math'' ''Understand''
      ''Simple'' MoreExamples (fractions_session, []))) \<and>
   log_consistent (fst (fst (generate_response null_lib (reply ''Three of four.'') noon
      ''What is 3/4?'' ''Math'' ''Understand'' ''Simple'' ''primary'' (fractions_session, [])))) \<and>
   meta_log (fst (fst (generate_response null_lib (reply ''Three of four.'') noon
      ''What is 3/4?'' ''Math'' ''Understand'' ''Simple'' ''primary'' (fractions_session, [])))) =
     [fractions_entry,
      \<lparr>timestamp = ''2025-03-07 12:05:09'', topic = ''Fractions'', subject = ''Math'',
       bloom_level = ''Understand'', style = ''Simple'', question = ''What is 3/4?'',
       response = ''Three of four.'', refinement_count = 0, refinements = []\<rparr>] \<and>
   refinement_count (last (meta_log (fst (fst (generate_response null_lib (reply ''Half a pizza.'')
      noon ''Half of a whole.'' ''Math'' ''Understand'' ''Simple'' ''simpler''
      (fractions_session, [])))))) = 2 \<and>
   length (refinements (last (meta_log (fst (fst (generate_response null_lib
      (reply ''Half a pizza.'') noon ''Half of a whole.'' ''Math'' ''Understand'' ''Simple''
      ''simpler'' (fractions_session, []))))))) = 2"
proof -
  have c: "log_consistent fractions_session"
    by (simp add: log_consistent_def count_matches_def fractions_session_def fractions_entry_def)
  have t: "str_datetime noon = ''2025-03-07 12:05:09''"
    by code_simp
  show ?thesis
    using c t
      refinement_count_invariant [of "(fractions_session, [])" null_lib "reply ''Half a pizza.''"
        noon "''Math''" "''Understand''" "''Simple''" MoreExamples fractions_session
        "''Half of a whole.''" "''simpler''" "[]" "''Half a pizza.''"]
      refinement_count_invariant [of "(fractions_session, [])" null_lib "reply ''Three of four.''"
        noon "''Math''" "''Understand''" "''Simple''" MoreExamples fractions_session
        "''What is 3/4?''" "''primary''" "[]" "''Three of four.''"]
    by (simp add: reply_def fractions_session_def fractions_entry_def)
qed

section \<open>Properties of the summary generator\<close>

lemma str_nat_1: "str_nat 1 = ''1''" by (simp add: str_nat.simps digit_char_def)
lemma str_nat_2: "str_nat 2 = ''2''" by (simp add: str_nat.simps digit_char_def)
lemma str_nat_Suc0: "str_nat (Suc 0) = ''1''" by (simp add: str_nat.simps digit_char_def)

text \<open>
  C7. For the session with topic "Fractions", confidence log ["Medium"] and the single
  entry with question "What is 1/2?", counter 1 and one refinement of mode "simpler"
  (every other field arbitrary), the summary is the text below: its priority line reads
  "MEDIUM - Review recommended" (with the em dash), and it holds exactly two answer blocks,
  headed "Answer Version 1 (Main Explanation)" and "Answer Version 2 - Simpler Explanation".
\<close>

theorem fractions_summary:
  "generate_summary
     \<lparr>chat_history = ch,
      meta_log = [\<lparr>timestamp = ts, topic = tp, subject = sj, bloom_level = bl, style = sty,
                  question = ''What is 1/2?'', response = resp, refinement_count = 1,
                  refinements = [\<lparr>ref_timestamp = rts, ref_mode = ''simpler'',
                                  ref_response = rresp\<rparr>]\<rparr>],
      confidence_log = [''Medium''], last_answer = la, session_topic = ''Fractions'',
      session_active = act\<rparr> now =
   ''\<newline>AI Learning Session Summary\<newline>'' @
   ''\<newline>Session Topic: Fractions\<newline>'' @
   ''Date: '' @ strftime_summary now @ ''\<newline>'' @
   ''\<newline>Total Questions: 1\<newline>'' @
   ''Confidence Trend: Medium\<newline>'' @
   ''\<newline>\<newline>Questions & Learning Attempts:\<newline>'' @
   ''\<newline>'' @ bullet @ '' Question: What is 1/2?\<newline>'' @
   ''  Subject: '' @ sj @ ''\<newline>'' @
   ''  Bloom Level: '' @ bl @ ''\<newline>'' @
   ''\<newline>  Revision Priority: MEDIUM '' @ em_dash @ '' Review recommended\<newline>'' @
   ''\<newline>  Answer Version 1 (Main Explanation):\<newline>'' @
   ''  '' @ resp @ ''\<newline>'' @
   ''\<newline>  Answer Version 2 '' @ em_dash @ '' Simpler Explanation:\<newline>'' @
   ''  '' @ rresp @ ''\<newline>'' @
   reflection_notes"
  by (simp add: generate_summary_def summary_header_def entry_text_def entry_head_def
      refinement_block_def get_revision_priority_def MEDIUM_def List.enumerate_eq_zip
      str_nat_1 str_nat_2 str_nat_Suc0 upt_rec)

section \<open>Properties of the downloads\<close>








section \<open>The summary and the clock\<close>











section \<open>Properties of the session storage\<close>

lemma save_all_from:
  assumes "\<forall>k\<le>length es. load lib (dump lib (JArr (d @ map entry_json (take k es)))) =
             Inr (JArr (d @ map entry_json (take k es)))"
  shows "save_all lib es (dump lib (JArr d)) = Inr (dump lib (JArr (d @ map entry_json es)))"
  using assms
proof (induction es arbitrary: d)
  case Nil
  then show ?case by simp
next
  case (Cons e es)
  from Cons.prems have "load lib (dump lib (JArr d)) = Inr (JArr d)"
    by (metis append_Nil2 le0 list.simps(8) take_0)
  then have step: "save_session lib e (dump lib (JArr d)) = Inr (dump lib (JArr (d @ [entry_json e])))"
    by (simp add: save_session_def load_sessions_def)
  have "\<forall>k\<le>length es. load lib (dump lib (JArr ((d @ [entry_json e]) @ map entry_json (take k es)))) =
          Inr (JArr ((d @ [entry_json e]) @ map entry_json (take k es)))"
  proof (intro allI impI)
    fix k assume "k \<le> length es"
    then have "Suc k \<le> length (e # es)" by simp
    with Cons.prems show "load lib (dump lib (JArr ((d @ [entry_json e]) @ map entry_json (take k es)))) =
          Inr (JArr ((d @ [entry_json e]) @ map entry_json (take k es)))"
      by (metis append.assoc append_Cons append_Nil list.simps(9) take_Suc_Cons)
  qed
  then have "save_all lib es (dump lib (JArr (d @ [entry_json e]))) =
               Inr (dump lib (JArr ((d @ [entry_json e]) @ map entry_json es)))"
    by (rule Cons.IH)
  with step show ?case by simp
qed

lemma refinement_json_inj: "inj refinement_json"
  by (rule injI) (simp add: refinement_json_def)

lemma entry_json_inj: "inj entry_json"
proof (rule injI)
  fix x y :: entry
  assume "entry_json x = entry_json y"
  then show "x = y"
    using refinement_json_inj by (simp add: entry_json_def)
qed

text \<open>
  C5. Saving the entries of a sequence one after the other with \<open>save_session\<close>, starting
  from the freshly created log file, and loading the file with \<open>load_sessions\<close> gives back
  the sequence: the same entries in the same order, and the stored form of an entry
  determines all its fields. The hypothesis is the part of the round trip that belongs to
  the JSON library: what it writes for a prefix of the sequence, it reads back.
\<close>

theorem log_round_trip:
  assumes "\<forall>k\<le>length es. load lib (dump lib (JArr (map entry_json (take k es)))) =
             Inr (JArr (map entry_json (take k es)))"
  shows "save_all lib es (initial_file lib) = Inr (dump lib (JArr (map entry_json es))) \<and>
         load_sessions lib (dump lib (JArr (map entry_json es))) = Inr (JArr (map entry_json es)) \<and>
         inj entry_json"
proof (intro conjI)
  show "save_all lib es (initial_file lib) = Inr (dump lib (JArr (map entry_json es)))"
    using save_all_from [of es lib "[]"] assms by (simp add: initial_file_def)
  show "load_sessions lib (dump lib (JArr (map entry_json es))) = Inr (JArr (map entry_json es))"
    using assms by (auto simp add: load_sessions_def dest: spec [of _ "length es"])
  show "inj entry_json" by (rule entry_json_inj)
qed

lemma example_round_trip_0: "parse_json (render 0 (JArr [])) = Inr (JArr [])"
  by code_simp

lemma example_round_trip_1:
  "parse_json (render 0 (JArr [entry_json fractions_entry])) = Inr (JArr [entry_json fractions_entry])"
  by code_simp

lemma example_round_trip_2:
  "parse_json (render 0 (JArr [entry_json fractions_entry, entry_json decimals_entry])) =
     Inr (JArr [entry_json fractions_entry, entry_json decimals_entry])"
  by code_simp

theorem log_round_trip_witness:
  "save_all example_lib [fractions_entry, decimals_entry] (initial_file example_lib) =
     Inr (render 0 (JArr [entry_json fractions_entry, entry_json decimals_entry])) \<and>
   load_sessions example_lib
       (render 0 (JArr [entry_json fractions_entry, entry_json decimals_entry])) =
     Inr (JArr [entry_json fractions_entry, entry_json decimals_entry])"
proof -
  have "\<forall>k\<le>length [fractions_entry, decimals_entry].
          load example_lib (dump example_lib
            (JArr (map entry_json (take k [fractions_entry, decimals_entry])))) =
          Inr (JArr (map entry_json (take k [fractions_entry, decimals_entry])))"
  proof (intro allI impI)
    fix k assume "k \<le> length [fractions_entry, decimals_entry]"
    then have "k = 0 \<or> k = 1 \<or> k = 2" by auto
    then show "load example_lib (dump example_lib
            (JArr (map entry_json (take k [fractions_entry, decimals_entry])))) =
          Inr (JArr (map entry_json (take k [fractions_entry, decimals_entry])))"
      using example_round_trip_0 example_round_trip_1 example_round_trip_2
      by (auto simp add: example_lib_def)
  qed
  from log_round_trip [OF this] show ?thesis
    by (simp add: example_lib_def)
qed

end
